theory Spec2Isabelle
  imports Main "HOL-Library.Sublist"
begin

section \<open>Entity name patterns (src/app/src/lib/entity-patterns.ts)\<close>

text \<open>
  Entity identifiers are modelled as \<open>string\<close>. Home Assistant entity identifiers are
  ASCII; a \<open>char\<close> stands for one code unit below U+0100, so the only line terminators
  that the regular expression atom \<open>.\<close> refuses are line feed and carriage return.
\<close>

definition PRINT_STATUS_SUFFIXES :: "string list" where
  "PRINT_STATUS_SUFFIXES =
     [''print_status'', ''druckstatus'', ''printstatus'',
      ''estado_de_la_impresion'', ''stato_di_stampa'']"

datatype SupportedLanguage = en | de | nl | es | it

text \<open>The object literal, as the list of its entries in insertion order
  (the order in which \<open>Object.entries\<close> enumerates string keys).\<close>

definition PRINT_STATUS_TO_LANGUAGE :: "(string \<times> SupportedLanguage) list" where
  "PRINT_STATUS_TO_LANGUAGE =
     [(''print_status'', en), (''druckstatus'', de), (''printstatus'', nl),
      (''estado_de_la_impresion'', es), (''stato_di_stampa'', it)]"

subsection \<open>String primitives of the host language\<close>

definition startsWith :: "string \<Rightarrow> string \<Rightarrow> bool" where
  "startsWith str p \<longleftrightarrow> take (length p) str = p"

definition endsWith :: "string \<Rightarrow> string \<Rightarrow> bool" where
  "endsWith str t \<longleftrightarrow> length t \<le> length str \<and> drop (length str - length t) str = t"

text \<open>The character class \<open>\d\<close> (without the unicode flag: the ten ASCII digits).\<close>

definition is_digit :: "char \<Rightarrow> bool" where
  "is_digit c \<longleftrightarrow> c \<in> set ''0123456789''"

text \<open>The atom \<open>.\<close> matches every code unit but a line terminator.\<close>

definition is_line_terminator :: "char \<Rightarrow> bool" where
  "is_line_terminator c \<longleftrightarrow> c = CHR 0x0A \<or> c = CHR 0x0D"

text \<open>Consuming a literal at the start of the subject: the rest, if the literal is there.\<close>

fun strip_literal :: "string \<Rightarrow> string \<Rightarrow> string option" where
  "strip_literal [] t = Some t"
| "strip_literal (p # ps) [] = None"
| "strip_literal (p # ps) (c # cs) = (if p = c then strip_literal ps cs else None)"

text \<open>\<open>_\d+$\<close> against the whole of the remaining subject.\<close>

fun version_tail :: "string \<Rightarrow> bool" where
  "version_tail [] = False"
| "version_tail (c # ds) \<longleftrightarrow> c = CHR ''_'' \<and> ds \<noteq> [] \<and> list_all is_digit ds"

text \<open>\<open>_${suffix}_\d+$\<close> matched at the start of the remaining subject \<open>t\<close>.\<close>

definition match_versioned_at :: "string \<Rightarrow> string \<Rightarrow> bool" where
  "match_versioned_at sfx t =
     (case strip_literal (CHR ''_'' # sfx) t of
        None \<Rightarrow> False
      | Some r \<Rightarrow> version_tail r)"

text \<open>\<open>str.match(new RegExp(`_${suffix}_\\d+$`))\<close> is not anchored on the left: the
  engine tries every start position from the left. Only whether there is a match is used.\<close>

fun match_versioned :: "string \<Rightarrow> string \<Rightarrow> bool" where
  "match_versioned sfx [] = False"
| "match_versioned sfx (c # cs) \<longleftrightarrow>
     match_versioned_at sfx (c # cs) \<or> match_versioned sfx cs"

text \<open>The test that \<open>isPrintStatusEntity\<close> and \<open>detectLanguageFromEntity\<close> both apply
  to a suffix:
  \<^verbatim>\<open>entityId.endsWith(`_${suffix}`) || entityId.match(new RegExp(`_${suffix}_\\d+$`))\<close>\<close>

definition has_status_suffix :: "string \<Rightarrow> string \<Rightarrow> bool" where
  "has_status_suffix entityId sfx \<longleftrightarrow>
     endsWith entityId (CHR ''_'' # sfx) \<or> match_versioned sfx entityId"

subsection \<open>isPrintStatusEntity\<close>

definition isPrintStatusEntity :: "string \<Rightarrow> bool" where
  "isPrintStatusEntity entityId \<longleftrightarrow>
     (if \<not> startsWith entityId ''sensor.'' then False
      else list_ex (\<lambda>sfx. has_status_suffix entityId sfx) PRINT_STATUS_SUFFIXES)"

subsection \<open>detectLanguageFromEntity\<close>

text \<open>The \<open>for ... of\<close> loop over the entries, returning at the first entry that matches;
  the statement after the loop returns \<open>en\<close>.\<close>

fun detect_loop :: "(string \<times> SupportedLanguage) list \<Rightarrow> string \<Rightarrow> SupportedLanguage" where
  "detect_loop [] entityId = en"
| "detect_loop ((sfx, lang) # rest) entityId =
     (if has_status_suffix entityId sfx then lang else detect_loop rest entityId)"

definition detectLanguageFromEntity :: "string \<Rightarrow> SupportedLanguage" where
  "detectLanguageFromEntity entityId = detect_loop PRINT_STATUS_TO_LANGUAGE entityId"

subsection \<open>extractPrinterPrefix\<close>

text \<open>\<open>_(?:s1|...|s5)(?:_\d+)?$\<close> against the whole of the remaining subject \<open>t\<close>, for one
  alternative \<open>sfx\<close>: the literal, then either the end or a version tail.\<close>

definition match_status_tail :: "string \<Rightarrow> string \<Rightarrow> bool" where
  "match_status_tail sfx t =
     (case strip_literal (CHR ''_'' # sfx) t of
        None \<Rightarrow> False
      | Some r \<Rightarrow> r = [] \<or> version_tail r)"

definition status_tail :: "string \<Rightarrow> bool" where
  "status_tail t = list_ex (\<lambda>sfx. match_status_tail sfx t) PRINT_STATUS_SUFFIXES"

text \<open>The lazy group \<open>(.+?)\<close>: it takes one character that is not a line terminator, then
  the rest of the pattern is tried; when that fails the group takes one character more.
  \<open>acc\<close> is what the group holds so far.\<close>

fun lazy_group :: "string \<Rightarrow> string \<Rightarrow> string option" where
  "lazy_group acc [] = None"
| "lazy_group acc (c # cs) =
     (if is_line_terminator c then None
      else if status_tail cs then Some (acc @ [c])
      else lazy_group (acc @ [c]) cs)"

text \<open>\<open>entityId.match(buildPrintStatusPattern())\<close> with the pattern
  \<^verbatim>\<open>^sensor\.(.+?)_(?:print_status|...|stato_di_stampa)(?:_\d+)?$\<close>:
  the content of group 1 on a match, \<open>None\<close> for \<open>null\<close>.\<close>

definition buildPrintStatusPattern :: "string \<Rightarrow> string option" where
  "buildPrintStatusPattern entityId =
     (case strip_literal ''sensor.'' entityId of
        None \<Rightarrow> None
      | Some r \<Rightarrow> lazy_group [] r)"

text \<open>\<open>result.replace(new RegExp(`_${suffix}(?:_\\d+)?$`), '')\<close>: the leftmost start
  position from which the pattern reaches the end of the subject is cut off.\<close>

fun replace_status_tail :: "string \<Rightarrow> string \<Rightarrow> string" where
  "replace_status_tail sfx [] = []"
| "replace_status_tail sfx (c # cs) =
     (if match_status_tail sfx (c # cs) then []
      else c # replace_status_tail sfx cs)"

text \<open>\<open>entityId.replace(/^sensor\./, '')\<close>\<close>

definition replace_sensor :: "string \<Rightarrow> string" where
  "replace_sensor entityId =
     (case strip_literal ''sensor.'' entityId of None \<Rightarrow> entityId | Some r \<Rightarrow> r)"

text \<open>The fallback loop \<open>for (const suffix of PRINT_STATUS_SUFFIXES) result = ...\<close>\<close>

fun strip_known_patterns :: "string list \<Rightarrow> string \<Rightarrow> string" where
  "strip_known_patterns [] result = result"
| "strip_known_patterns (sfx # rest) result =
     strip_known_patterns rest (replace_status_tail sfx result)"

definition extractPrinterPrefix :: "string \<Rightarrow> string" where
  "extractPrinterPrefix entityId =
     (case buildPrintStatusPattern entityId of
        Some g \<Rightarrow> g
      | None \<Rightarrow> strip_known_patterns PRINT_STATUS_SUFFIXES (replace_sensor entityId))"


text \<open>An optional numeric disambiguator as the hub appends it (\<open>_2\<close>, \<open>_3\<close>, ...):
  nothing, or an underscore and at least one digit. Used to state properties.\<close>

definition disambiguator :: "string \<Rightarrow> bool" where
  "disambiguator tail \<longleftrightarrow> tail = [] \<or> version_tail tail"

section \<open>The webhook handler (src/app/src/app/api/webhook/route.ts)\<close>

subsection \<open>Data\<close>

text \<open>
  Numbers of the host language are kept abstract: \<open>'n\<close> is any type with a zero, a
  subtraction and a linear order. The handler only compares a weight with zero and
  subtracts one weight from another; no law of arithmetic is used.
\<close>

text \<open>
  Modelled from the spec: the type of a spool is declared in the inventory client
  (\<open>@/lib/api/spoolman\<close>), which is not among the sources. The spec gives
  \<open>{ id, filament: { name, material, color }, remainingWeight: number,
  extra: map<string,string> }\<close>; the fields carry the names under which the handler
  reads them (\<open>id\<close>, \<open>filament.name\<close>, \<open>remaining_weight\<close>, \<open>extra\<close>). An absent \<open>extra\<close>
  is the empty map: \<open>s.extra?.[k]\<close> is \<open>undefined\<close> for both.
\<close>

record Filament =
  name :: string
  material :: string
  color :: string

record 'n Spool =
  id' :: nat
  filament :: Filament
  remaining_weight :: 'n
  extra :: "string \<rightharpoonup> string"

text \<open>
  The fields that the handler destructures from the request body, with the types of the
  documented payload; \<open>None\<close> is a field that is absent (or \<open>null\<close>). A body that is
  valid JSON but no object (a number, a string, an array) has none of the fields.
\<close>

record 'n payload =
  event :: "string option"
  used_weight :: "'n option"
  active_tray_id :: "string option"
  tray_entity_id :: "string option"
  tag_uid :: "string option"

datatype 'n json_body = JsonNull | JsonObject "'n payload"

text \<open>A template literal, as the list of its pieces; how a number is printed is not
  modelled. \<open>Str None\<close> is an interpolated \<open>undefined\<close>.\<close>

datatype 'n piece = Lit string | Str "string option" | Num 'n | Id nat

datatype 'n details =
    BodyJson "'n payload"
  | UsageDetails nat 'n string
  | ChangeDetails nat "string option" string
  | ErrorDetails string

record 'n ActivityRecord =
  type :: string
  message :: "'n piece list"
  details :: "'n details"

text \<open>The update event that the handler builds. Its type is declared in the events module
  (\<open>@/lib/events\<close>), which is not among the sources; the fields are those of the object
  literal in the handler, and \<open>Usage\<close> is its \<open>type: 'usage'\<close>.\<close>

datatype 'n SpoolUpdateEvent =
  Usage (spoolId: nat) (spoolName: string) (deducted: 'n) (newWeight: 'n)
        (trayId: string) (timestamp: int)

text \<open>The response objects of the handler: \<open>{status: 'ignored', reason}\<close>,
  \<open>{status: 'no_match', message}\<close>, \<open>{status: 'success', spoolId, deducted,
  newRemainingWeight}\<close>, \<open>{status: 'success', spool, matchedBy}\<close> and \<open>{error}\<close>.\<close>

datatype 'n response_body =
    Ignored string
  | NoMatch "'n piece list"
  | UsageSuccess nat 'n 'n
  | AssignSuccess "'n Spool" string
  | Failure string

record 'n response =
  body :: "'n response_body"
  http_status :: nat

text \<open>The \<open>status\<close> field of the response object; the failure object has none.\<close>

fun status :: "'n response_body \<Rightarrow> string option" where
  "status (Ignored reason) = Some ''ignored''"
| "status (NoMatch msg) = Some ''no_match''"
| "status (UsageSuccess sid d w) = Some ''success''"
| "status (AssignSuccess s by) = Some ''success''"
| "status (Failure err) = None"

text \<open>\<open>NextResponse.json(obj)\<close> and \<open>NextResponse.json(obj, { status: 500 })\<close>\<close>

definition json :: "'n response_body \<Rightarrow> 'n response" where
  "json b = \<lparr>body = b, http_status = 200\<rparr>"

definition json_status :: "'n response_body \<Rightarrow> nat \<Rightarrow> 'n response" where
  "json_status b st = \<lparr>body = b, http_status = st\<rparr>"

subsection \<open>The world around the handler\<close>

text \<open>Calls to the inventory service that the handler makes, in the order it makes them.\<close>

datatype 'n call =
    GetSpools
  | UseWeight nat 'n
  | AssignSpoolToTray nat "string option"


record 'n world =
  activityLog :: "'n ActivityRecord list"
  calls :: "'n call list"
  emitted :: "'n SpoolUpdateEvent list"

text \<open>
  What the collaborators answer during one delivery. A thrown value is its message, which
  is all the handler reads of it (\<open>Inl\<close> for a call that throws, \<open>Some\<close> for a call without
  a result that throws). The client is built from the URL of the stored connection, so the
  answers of the inventory service may depend on it.
\<close>

record 'n env =
  request_json :: "string + 'n json_body"
  create_result :: "'n ActivityRecord \<Rightarrow> string option"
  findFirst_result :: "string + string option"
  getSpools_result :: "string \<Rightarrow> string + 'n Spool list"
  useWeight_result :: "string \<Rightarrow> nat \<Rightarrow> 'n \<Rightarrow> string option"
  assignSpoolToTray_result :: "string \<Rightarrow> nat \<Rightarrow> string option \<Rightarrow> string option"
  now :: int

subsection \<open>Sequencing, throwing and catching\<close>

type_synonym ('n, 'a) io = "'n world \<Rightarrow> 'n world \<times> (string + 'a)"

definition return_io :: "'a \<Rightarrow> ('n, 'a) io" where
  "return_io x = (\<lambda>w. (w, Inr x))"

definition throw_io :: "string \<Rightarrow> ('n, 'a) io" where
  "throw_io err = (\<lambda>w. (w, Inl err))"

text \<open>One statement, then the rest of the block; a throw skips the rest.\<close>

definition bind_io :: "('n, 'a) io \<Rightarrow> ('a \<Rightarrow> ('n, 'b) io) \<Rightarrow> ('n, 'b) io" where
  "bind_io m k = (\<lambda>w. case m w of (w1, Inl err) \<Rightarrow> (w1, Inl err) | (w1, Inr x) \<Rightarrow> k x w1)"

definition try_catch :: "('n, 'a) io \<Rightarrow> (string \<Rightarrow> ('n, 'a) io) \<Rightarrow> ('n, 'a) io" where
  "try_catch m h = (\<lambda>w. case m w of (w1, Inl err) \<Rightarrow> h err w1 | (w1, Inr x) \<Rightarrow> (w1, Inr x))"

subsection \<open>The collaborators' operations\<close>

definition request_json_io :: "'n env \<Rightarrow> ('n, 'n json_body) io" where
  "request_json_io e = (\<lambda>w. (w, request_json e))"

text \<open>\<open>prisma.activityLog.create\<close>: the record is appended unless the call throws.\<close>

definition activityLog_create :: "'n env \<Rightarrow> 'n ActivityRecord \<Rightarrow> ('n, unit) io" where
  "activityLog_create e r =
     (\<lambda>w. case create_result e r of
             Some err \<Rightarrow> (w, Inl err)
           | None \<Rightarrow> (w\<lparr>activityLog := activityLog w @ [r]\<rparr>, Inr ()))"

definition spoolmanConnection_findFirst :: "'n env \<Rightarrow> ('n, string option) io" where
  "spoolmanConnection_findFirst e = (\<lambda>w. (w, findFirst_result e))"

definition getSpools :: "'n env \<Rightarrow> string \<Rightarrow> ('n, 'n Spool list) io" where
  "getSpools e client = (\<lambda>w. (w\<lparr>calls := calls w @ [GetSpools]\<rparr>, getSpools_result e client))"

definition useWeight :: "'n env \<Rightarrow> string \<Rightarrow> nat \<Rightarrow> 'n \<Rightarrow> ('n, unit) io" where
  "useWeight e client sid w =
     (\<lambda>wd. (wd\<lparr>calls := calls wd @ [UseWeight sid w]\<rparr>,
            case useWeight_result e client sid w of Some err \<Rightarrow> Inl err | None \<Rightarrow> Inr ()))"

definition assignSpoolToTray :: "'n env \<Rightarrow> string \<Rightarrow> nat \<Rightarrow> string option \<Rightarrow> ('n, unit) io" where
  "assignSpoolToTray e client sid tray =
     (\<lambda>wd. (wd\<lparr>calls := calls wd @ [AssignSpoolToTray sid tray]\<rparr>,
            case assignSpoolToTray_result e client sid tray of
              Some err \<Rightarrow> Inl err | None \<Rightarrow> Inr ()))"

text \<open>Modelled from the spec: \<open>spoolEvents.emit\<close> belongs to the events module
  (\<open>@/lib/events\<close>), which is not among the sources. Publishing hands the event to the
  subscribers and does not fail (a failing subscriber is isolated).\<close>

definition emit :: "'n SpoolUpdateEvent \<Rightarrow> ('n, unit) io" where
  "emit ev = (\<lambda>w. (w\<lparr>emitted := emitted w @ [ev]\<rparr>, Inr ()))"

subsection \<open>JSON.stringify of a string\<close>

definition hex_digit :: "nat \<Rightarrow> char" where
  "hex_digit n = ''0123456789abcdef'' ! (n mod 16)"

text \<open>The quote, the backslash and the control characters are escaped; every other
  character is copied.\<close>

definition quote_char :: "char \<Rightarrow> string" where
  "quote_char c =
     (if c = CHR 0x22 then [CHR 0x5C, CHR 0x22]
      else if c = CHR 0x5C then [CHR 0x5C, CHR 0x5C]
      else if c = CHR 0x08 then [CHR 0x5C, CHR ''b'']
      else if c = CHR 0x0C then [CHR 0x5C, CHR ''f'']
      else if c = CHR 0x0A then [CHR 0x5C, CHR ''n'']
      else if c = CHR 0x0D then [CHR 0x5C, CHR ''r'']
      else if c = CHR 0x09 then [CHR 0x5C, CHR ''t'']
      else if (of_char c :: nat) < 0x20
        then [CHR 0x5C, CHR ''u'', CHR ''0'', CHR ''0'',
              hex_digit (of_char c div 16), hex_digit (of_char c)]
      else [c])"

definition JSON_stringify :: "string \<Rightarrow> string" where
  "JSON_stringify str = CHR 0x22 # concat (map quote_char str) @ [CHR 0x22]"

subsection \<open>POST\<close>

text \<open>\<open>!used_weight || used_weight <= 0\<close>: an absent weight and zero are falsy.\<close>

definition no_weight :: "('n::{zero,minus,linorder}) option \<Rightarrow> bool" where
  "no_weight uw = (case uw of None \<Rightarrow> True | Some n \<Rightarrow> n = 0 \<or> n \<le> 0)"

text \<open>\<open>!str\<close>: an absent string and the empty string are falsy.\<close>

definition falsy :: "string option \<Rightarrow> bool" where
  "falsy str = (case str of None \<Rightarrow> True | Some t \<Rightarrow> t = [])"

text \<open>The four records that the handler writes to the activity log (the \<open>data\<close> objects
  of its four \<open>prisma.activityLog.create\<close> calls).\<close>

definition webhook_record :: "'n payload \<Rightarrow> 'n ActivityRecord" where
  "webhook_record p =
     \<lparr>type = ''webhook'',
      message = [Lit ''Received '', Str (event p), Lit '' event''],
      details = BodyJson p\<rparr>"

definition usage_record :: "'n Spool \<Rightarrow> 'n \<Rightarrow> string \<Rightarrow> 'n ActivityRecord" where
  "usage_record ms uw tray =
     \<lparr>type = ''spool_usage'',
      message = [Lit ''Deducted '', Num uw, Lit ''g from spool #'', Id (id' ms),
                 Lit '' ('', Str (Some (name (filament ms))), Lit '')''],
      details = UsageDetails (id' ms) uw tray\<rparr>"

definition change_record :: "'n Spool \<Rightarrow> string option \<Rightarrow> 'n ActivityRecord" where
  "change_record ms tray =
     \<lparr>type = ''spool_change'',
      message = [Lit ''Auto-assigned spool #'', Id (id' ms), Lit '' to '',
                 Str tray, Lit '' (matched by tag UID)''],
      details = ChangeDetails (id' ms) tray ''tag_uid''\<rparr>"

definition error_record :: "string \<Rightarrow> 'n ActivityRecord" where
  "error_record err =
     \<lparr>type = ''error'',
      message = [Lit ''Webhook processing failed''],
      details = ErrorDetails err\<rparr>"

text \<open>The branch \<open>if (event === 'spool_usage') { ... }\<close>; every path of it returns.
  Writing to the console is not modelled.\<close>

definition spool_usage ::
  "('n::{zero,minus,linorder}) env \<Rightarrow> string \<Rightarrow> 'n payload \<Rightarrow> ('n, 'n response) io" where
  "spool_usage e client p =
     (if no_weight (used_weight p) then
        return_io (json (Ignored ''no weight to deduct''))
      else if falsy (active_tray_id p) then
        return_io (json (Ignored ''no active_tray_id provided''))
      else
        bind_io (getSpools e client) (\<lambda>spools.
          let uw = the (used_weight p);
              tray = the (active_tray_id p);
              jsonTrayId = JSON_stringify tray;
              matchedSpool = find (\<lambda>s. extra s ''active_tray'' = Some jsonTrayId) spools
          in case matchedSpool of
               None \<Rightarrow>
                 return_io (json (NoMatch
                   [Lit ''No spool assigned to tray '', Str (Some tray),
                    Lit ''. Assign a spool in SpoolmanSync first.'']))
             | Some ms \<Rightarrow>
                 bind_io (useWeight e client (id' ms) uw) (\<lambda>_.
                 bind_io (emit (Usage (id' ms) (name (filament ms)) uw
                                  (remaining_weight ms - uw) tray (now e))) (\<lambda>_.
                 bind_io (activityLog_create e (usage_record ms uw tray)) (\<lambda>_.
                 return_io (json (UsageSuccess (id' ms) uw (remaining_weight ms - uw))))))))"

text \<open>The branch \<open>if (event === 'tray_change') { ... }\<close>. The inner \<open>if\<close> statements
  return on a match; every other path falls through to the statement that ends the
  branch, so the search result is \<open>None\<close> when the tag is not searched for.\<close>

definition tray_change ::
  "('n::{zero,minus,linorder}) env \<Rightarrow> string \<Rightarrow> 'n payload \<Rightarrow> ('n, 'n response) io" where
  "tray_change e client p =
     bind_io (getSpools e client) (\<lambda>spools.
       let matchedSpool =
             (if \<not> falsy (tag_uid p) \<and> tag_uid p \<noteq> Some ''unknown'' \<and> tag_uid p \<noteq> Some []
              then let jsonTagUid = JSON_stringify (the (tag_uid p))
                   in find (\<lambda>s. extra s ''tag_uid'' = Some jsonTagUid) spools
              else None)
       in case matchedSpool of
            Some ms \<Rightarrow>
              bind_io (assignSpoolToTray e client (id' ms) (tray_entity_id p)) (\<lambda>_.
              bind_io (activityLog_create e (change_record ms (tray_entity_id p))) (\<lambda>_.
              return_io (json (AssignSuccess ms ''tag_uid''))))
          | None \<Rightarrow>
              return_io (json (NoMatch
                [Lit ''No spool assigned to this tray. Please assign a spool manually in SpoolmanSync.''])))"

text \<open>\<open>const { event } = body\<close> throws a TypeError when the body is \<open>null\<close>; the wording
  of its message is the engine's.\<close>

definition destructure_null :: string where
  "destructure_null = ''Cannot destructure property 'event' of 'body' as it is null.''"

text \<open>The \<open>try\<close> block.\<close>

definition POST_try :: "('n::{zero,minus,linorder}) env \<Rightarrow> ('n, 'n response) io" where
  "POST_try e =
     bind_io (request_json_io e) (\<lambda>parsed.
       case parsed of
         JsonNull \<Rightarrow> throw_io destructure_null
       | JsonObject p \<Rightarrow>
           bind_io (activityLog_create e (webhook_record p)) (\<lambda>_.
           bind_io (spoolmanConnection_findFirst e) (\<lambda>spoolmanConnection.
             case spoolmanConnection of
               None \<Rightarrow> return_io (json (Ignored ''spoolman not configured''))
             | Some client \<Rightarrow>
                 if event p = Some ''spool_usage'' then spool_usage e client p
                 else if event p = Some ''tray_change'' then tray_change e client p
                 else return_io (json (Ignored ''unknown event type'')))))"

text \<open>The \<open>catch\<close> block: it writes the error record and answers with status 500. A
  throw of its own leaves the handler.\<close>

definition POST_catch :: "'n env \<Rightarrow> string \<Rightarrow> ('n, 'n response) io" where
  "POST_catch e err =
     bind_io (activityLog_create e (error_record err)) (\<lambda>_.
     return_io (json_status (Failure ''Webhook processing failed'') 500))"

definition POST :: "('n::{zero,minus,linorder}) env \<Rightarrow> ('n, 'n response) io" where
  "POST e = try_catch (POST_try e) (POST_catch e)"


definition new_records :: "'n world \<Rightarrow> 'n world \<Rightarrow> 'n ActivityRecord list" where
  "new_records w w' = drop (length (activityLog w)) (activityLog w')"

subsection \<open>Example deliveries\<close>

text \<open>Three spools. The first claims tray 1 and carries the tag \<open>ABC\<close>; the second
  carries the same tag; the third carries none.\<close>

definition spool1 :: "int Spool" where
  "spool1 =
     \<lparr>id' = 1,
      filament = \<lparr>name = ''PLA Basic'', material = ''PLA'', color = ''FFFFFF''\<rparr>,
      remaining_weight = 800,
      extra = [''active_tray'' \<mapsto> JSON_stringify ''sensor.x1c_ams_1_tray_1'',
               ''tag_uid'' \<mapsto> JSON_stringify ''ABC'']\<rparr>"


definition spool3 :: "int Spool" where
  "spool3 =
     \<lparr>id' = 3,
      filament = \<lparr>name = ''ABS'', material = ''ABS'', color = ''FF0000''\<rparr>,
      remaining_weight = 250,
      extra = Map.empty\<rparr>"

definition usage_payload :: "int payload" where
  "usage_payload =
     \<lparr>event = Some ''spool_usage'', used_weight = Some 50,
      active_tray_id = Some ''sensor.x1c_ams_1_tray_1'',
      tray_entity_id = None, tag_uid = None\<rparr>"

definition change_payload :: "int payload" where
  "change_payload =
     \<lparr>event = Some ''tray_change'', used_weight = None, active_tray_id = None,
      tray_entity_id = Some ''sensor.x1c_ams_1_tray_2'', tag_uid = Some ''ABC''\<rparr>"

text \<open>A delivery of \<open>usage_payload\<close> on which every collaborator answers.\<close>

definition usage_env :: "int env" where
  "usage_env =
     \<lparr>request_json = Inr (JsonObject usage_payload),
      create_result = (\<lambda>r. None),
      findFirst_result = Inr (Some ''http://spoolman:7912''),
      getSpools_result = (\<lambda>client. Inr [spool3, spool1]),
      useWeight_result = (\<lambda>client sid g. None),
      assignSpoolToTray_result = (\<lambda>client sid tray. None),
      now = 1700000000000\<rparr>"

definition change_env :: "int env" where
  "change_env = usage_env\<lparr>request_json := Inr (JsonObject change_payload)\<rparr>"


definition world0 :: "int world" where
  "world0 = \<lparr>activityLog = [], calls = [], emitted = []\<rparr>"

text \<open>Deliveries on which one collaborator throws: the body is not JSON, the inventory
  cannot be read, the deduction fails, the assignment fails.\<close>

definition parse_fails_env :: "int env" where
  "parse_fails_env = usage_env\<lparr>request_json := Inl ''Unexpected end of JSON input''\<rparr>"

definition read_fails_env :: "int env" where
  "read_fails_env = usage_env\<lparr>getSpools_result := (\<lambda>client. Inl ''fetch failed'')\<rparr>"

definition use_fails_env :: "int env" where
  "use_fails_env =
     usage_env\<lparr>useWeight_result := (\<lambda>client sid g. Some ''Spoolman API error: 500'')\<rparr>"

definition assign_fails_env :: "int env" where
  "assign_fails_env =
     change_env\<lparr>assignSpoolToTray_result :=
                  (\<lambda>client sid tray. Some ''Spoolman API error: 500'')\<rparr>"

subsection \<open>Notions used to state the properties\<close>

text \<open>The response that the \<open>catch\<close> block sends.\<close>

definition failure_response :: "'n response" where
  "failure_response = json_status (Failure ''Webhook processing failed'') 500"

text \<open>The types of the records that one delivery leaves in the activity log, by the
  parsed body and the response: the \<open>webhook\<close> record is written once the body is
  destructured, a success writes a second record, and so does the \<open>catch\<close> block.\<close>

fun records_of_outcome :: "'n json_body \<Rightarrow> 'n response_body \<Rightarrow> string list" where
  "records_of_outcome b (Ignored reason) = [''webhook'']"
| "records_of_outcome b (NoMatch msg) = [''webhook'']"
| "records_of_outcome b (UsageSuccess sid d w) = [''webhook'', ''spool_usage'']"
| "records_of_outcome b (AssignSuccess s by) = [''webhook'', ''spool_change'']"
| "records_of_outcome JsonNull (Failure err) = [''error'']"
| "records_of_outcome (JsonObject p) (Failure err) = [''webhook'', ''error'']"

section \<open>Properties of the entity name patterns\<close>

subsection \<open>What the matchers accept\<close>

lemma strip_literal_iff: "strip_literal p t = Some r \<longleftrightarrow> t = p @ r"
  by (induction p t rule: strip_literal.induct) auto

lemma strip_literal_append [simp]: "strip_literal p (p @ r) = Some r"
  by (simp add: strip_literal_iff)

lemma version_tail_iff:
  "version_tail r \<longleftrightarrow> (\<exists>ds. r = CHR ''_'' # ds \<and> ds \<noteq> [] \<and> list_all is_digit ds)"
  by (cases r) auto

lemma endsWith_iff: "endsWith x t \<longleftrightarrow> (\<exists>pre. x = pre @ t)"
proof
  assume "endsWith x t"
  then have "x = take (length x - length t) x @ t"
    by (metis append_take_drop_id endsWith_def)
  then show "\<exists>pre. x = pre @ t" ..
next
  assume "\<exists>pre. x = pre @ t"
  then show "endsWith x t" by (auto simp: endsWith_def)
qed

lemma match_versioned_at_iff:
  "match_versioned_at sfx t \<longleftrightarrow> (\<exists>r. t = CHR ''_'' # sfx @ r \<and> version_tail r)"
  by (auto simp: match_versioned_at_def strip_literal_iff split: option.splits)

lemma match_versioned_iff:
  "match_versioned sfx x \<longleftrightarrow> (\<exists>pre r. x = pre @ CHR ''_'' # sfx @ r \<and> version_tail r)"
proof (induction x)
  case Nil
  then show ?case by simp
next
  case (Cons c cs)
  show ?case
  proof
    assume "match_versioned sfx (c # cs)"
    then consider "match_versioned_at sfx (c # cs)" | "match_versioned sfx cs" by auto
    then show "\<exists>pre r. c # cs = pre @ CHR ''_'' # sfx @ r \<and> version_tail r"
    proof cases
      case 1
      then obtain r where "c # cs = [] @ CHR ''_'' # sfx @ r" "version_tail r"
        by (auto simp: match_versioned_at_iff)
      then show ?thesis by blast
    next
      case 2
      then obtain pre r where "cs = pre @ CHR ''_'' # sfx @ r" "version_tail r"
        using Cons.IH by auto
      then have "c # cs = (c # pre) @ CHR ''_'' # sfx @ r" by simp
      with \<open>version_tail r\<close> show ?thesis by blast
    qed
  next
    assume "\<exists>pre r. c # cs = pre @ CHR ''_'' # sfx @ r \<and> version_tail r"
    then obtain pre r where eq: "c # cs = pre @ CHR ''_'' # sfx @ r" and vt: "version_tail r"
      by auto
    show "match_versioned sfx (c # cs)"
    proof (cases pre)
      case Nil
      with eq vt show ?thesis by (auto simp: match_versioned_at_iff)
    next
      case (Cons p ps)
      with eq have "cs = ps @ CHR ''_'' # sfx @ r" by simp
      with vt Cons.IH show ?thesis by auto
    qed
  qed
qed

lemma has_status_suffix_iff:
  "has_status_suffix x sfx \<longleftrightarrow>
     (\<exists>pre tail. x = pre @ CHR ''_'' # sfx @ tail \<and> disambiguator tail)"
  unfolding has_status_suffix_def endsWith_iff match_versioned_iff disambiguator_def
  by (metis append_Nil2 append_Cons)


lemma suffix_last_not_digit:
  "sfx \<in> set PRINT_STATUS_SUFFIXES \<Longrightarrow> sfx \<noteq> [] \<and> \<not> is_digit (last sfx)"
  by (simp add: PRINT_STATUS_SUFFIXES_def is_digit_def, elim disjE, simp_all)

lemma underscore_not_digit [simp]: "\<not> is_digit CHR ''_''"
  by (simp add: is_digit_def)

lemma trailing_digits:
  assumes "sfx \<in> set PRINT_STATUS_SUFFIXES" and "disambiguator tail"
  shows "takeWhile is_digit (rev (pre @ CHR ''_'' # sfx @ tail)) = rev (tl tail)"
proof (cases "tail = []")
  case True
  from assms(1) obtain b l where sfx: "sfx = b @ [l]" and l: "\<not> is_digit l"
    using suffix_last_not_digit by (metis append_butlast_last_id)
  with True show ?thesis by simp
next
  case False
  with assms(2) obtain ds where tail: "tail = CHR ''_'' # ds" and ds: "list_all is_digit ds"
    by (auto simp: disambiguator_def version_tail_iff)
  have "takeWhile is_digit (rev ds @ CHR ''_'' # rev sfx @ CHR ''_'' # rev pre) = rev ds"
    using ds by (subst takeWhile_append2) (auto simp: list_all_iff)
  with tail show ?thesis by simp
qed

lemma disambiguator_tl_inject:
  "disambiguator t \<Longrightarrow> disambiguator t' \<Longrightarrow> tl t = tl t' \<Longrightarrow> t = t'"
  by (auto simp: disambiguator_def version_tail_iff)

lemma suffix_of_suffixes_all:
  "\<forall>a\<in>set PRINT_STATUS_SUFFIXES. \<forall>b\<in>set PRINT_STATUS_SUFFIXES.
     suffix (CHR ''_'' # a) (CHR ''_'' # b) \<longrightarrow> a = b"
  by (simp add: PRINT_STATUS_SUFFIXES_def suffix_to_prefix)

lemma suffix_of_suffixes:
  "sfx \<in> set PRINT_STATUS_SUFFIXES \<Longrightarrow> sfx' \<in> set PRINT_STATUS_SUFFIXES \<Longrightarrow>
   suffix (CHR ''_'' # sfx) (CHR ''_'' # sfx') \<Longrightarrow> sfx = sfx'"
  using suffix_of_suffixes_all by blast

lemma status_suffix_unique:
  assumes "sfx \<in> set PRINT_STATUS_SUFFIXES" and "sfx' \<in> set PRINT_STATUS_SUFFIXES"
    and "disambiguator tail" and "disambiguator tail'"
    and eq: "pre @ CHR ''_'' # sfx @ tail = pre' @ CHR ''_'' # sfx' @ tail'"
  shows "sfx = sfx' \<and> tail = tail' \<and> pre = pre'"
proof -
  have "rev (tl tail) = rev (tl tail')"
    using trailing_digits [OF assms(1,3), of pre] trailing_digits [OF assms(2,4), of pre'] eq
    by simp
  then have tails: "tail = tail'"
    using assms(3,4) by (simp add: disambiguator_tl_inject)
  with eq have eq': "pre @ CHR ''_'' # sfx = pre' @ CHR ''_'' # sfx'"
    by (metis append.assoc append_Cons same_append_eq append_same_eq)
  then have "suffix (CHR ''_'' # sfx) (CHR ''_'' # sfx') \<or> suffix (CHR ''_'' # sfx') (CHR ''_'' # sfx)"
    unfolding suffix_def append_eq_append_conv2 by (metis)
  then have "sfx = sfx'"
    using assms(1,2) suffix_of_suffixes by blast
  with eq' tails show ?thesis by simp
qed


lemma has_status_suffix_eq:
  assumes "sfx \<in> set PRINT_STATUS_SUFFIXES" and "sfx' \<in> set PRINT_STATUS_SUFFIXES"
    and "disambiguator tail"
  shows "has_status_suffix (pre @ CHR ''_'' # sfx @ tail) sfx' \<longleftrightarrow> sfx' = sfx"
proof
  assume "has_status_suffix (pre @ CHR ''_'' # sfx @ tail) sfx'"
  then obtain pre' tail' where
    "pre @ CHR ''_'' # sfx @ tail = pre' @ CHR ''_'' # sfx' @ tail'" "disambiguator tail'"
    by (auto simp: has_status_suffix_iff)
  with assms show "sfx' = sfx"
    using status_suffix_unique by blast
next
  assume "sfx' = sfx"
  with assms(3) show "has_status_suffix (pre @ CHR ''_'' # sfx @ tail) sfx'"
    by (auto simp: has_status_suffix_iff)
qed

lemma table_suffixes: "map fst PRINT_STATUS_TO_LANGUAGE = PRINT_STATUS_SUFFIXES"
  by (simp add: PRINT_STATUS_TO_LANGUAGE_def PRINT_STATUS_SUFFIXES_def)

lemma detect_loop_none:
  "\<forall>sfx \<in> fst ` set tab. \<not> has_status_suffix x sfx \<Longrightarrow> detect_loop tab x = en"
  by (induction tab x rule: detect_loop.induct) auto

lemma detect_loop_first:
  "distinct (map fst tab) \<Longrightarrow> (sfx, L) \<in> set tab \<Longrightarrow>
   \<forall>sfx' \<in> fst ` set tab. has_status_suffix x sfx' \<longleftrightarrow> sfx' = sfx \<Longrightarrow>
   detect_loop tab x = L"
proof (induction tab x rule: detect_loop.induct)
  case (1 entityId)
  then show ?case by simp
next
  case (2 s l rest entityId)
  show ?case
  proof (cases "s = sfx")
    case True
    with 2 have "l = L" by (auto simp: image_iff)
    with True 2 show ?thesis by simp
  next
    case False
    with 2 show ?thesis by auto
  qed
qed

lemma detect_table_entry:
  assumes "(sfx, L) \<in> set PRINT_STATUS_TO_LANGUAGE" and "disambiguator tail"
  shows "detectLanguageFromEntity (pre @ CHR ''_'' # sfx @ tail) = L"
proof -
  have sets: "fst ` set PRINT_STATUS_TO_LANGUAGE = set PRINT_STATUS_SUFFIXES"
    using table_suffixes by (metis set_map)
  from assms(1) have mem: "sfx \<in> set PRINT_STATUS_SUFFIXES"
    using sets by force
  have dist: "distinct (map fst PRINT_STATUS_TO_LANGUAGE)"
    by (simp add: PRINT_STATUS_TO_LANGUAGE_def)
  have "\<forall>sfx' \<in> fst ` set PRINT_STATUS_TO_LANGUAGE.
          has_status_suffix (pre @ CHR ''_'' # sfx @ tail) sfx' \<longleftrightarrow> sfx' = sfx"
    using has_status_suffix_eq [OF mem] assms(2) sets by blast
  with dist assms(1) show ?thesis
    unfolding detectLanguageFromEntity_def by (intro detect_loop_first) auto
qed

text \<open>
  Claim C5. For each of the five supported locales, an entity identifier that ends in an
  underscore and the print-status suffix of the locale (\<open>print_status\<close> for en,
  \<open>druckstatus\<close> for de, \<open>printstatus\<close> for nl, \<open>estado_de_la_impresion\<close> for es,
  \<open>stato_di_stampa\<close> for it), optionally followed by a numeric disambiguator, is resolved
  to that locale by \<open>detectLanguageFromEntity\<close>; an identifier that is of this form for
  none of the five suffixes is resolved to the base locale \<open>en\<close>.
\<close>

theorem detectLanguageFromEntity_locale:
  "(disambiguator tail \<longrightarrow>
      detectLanguageFromEntity (pre @ ''_print_status'' @ tail) = en \<and>
      detectLanguageFromEntity (pre @ ''_druckstatus'' @ tail) = de \<and>
      detectLanguageFromEntity (pre @ ''_printstatus'' @ tail) = nl \<and>
      detectLanguageFromEntity (pre @ ''_estado_de_la_impresion'' @ tail) = es \<and>
      detectLanguageFromEntity (pre @ ''_stato_di_stampa'' @ tail) = it) \<and>
   ((\<forall>sfx pre tail.
        sfx \<in> set [''print_status'', ''druckstatus'', ''printstatus'',
                   ''estado_de_la_impresion'', ''stato_di_stampa''] \<and>
        disambiguator tail \<longrightarrow>
        x \<noteq> pre @ CHR ''_'' # sfx @ tail) \<longrightarrow>
      detectLanguageFromEntity x = en)"
proof (rule conjI; rule impI)
  assume d: "disambiguator tail"
  have "detectLanguageFromEntity (pre @ CHR ''_'' # ''print_status'' @ tail) = en"
    by (rule detect_table_entry [OF _ d]) (simp add: PRINT_STATUS_TO_LANGUAGE_def)
  moreover have "detectLanguageFromEntity (pre @ CHR ''_'' # ''druckstatus'' @ tail) = de"
    by (rule detect_table_entry [OF _ d]) (simp add: PRINT_STATUS_TO_LANGUAGE_def)
  moreover have "detectLanguageFromEntity (pre @ CHR ''_'' # ''printstatus'' @ tail) = nl"
    by (rule detect_table_entry [OF _ d]) (simp add: PRINT_STATUS_TO_LANGUAGE_def)
  moreover have
    "detectLanguageFromEntity (pre @ CHR ''_'' # ''estado_de_la_impresion'' @ tail) = es"
    by (rule detect_table_entry [OF _ d]) (simp add: PRINT_STATUS_TO_LANGUAGE_def)
  moreover have "detectLanguageFromEntity (pre @ CHR ''_'' # ''stato_di_stampa'' @ tail) = it"
    by (rule detect_table_entry [OF _ d]) (simp add: PRINT_STATUS_TO_LANGUAGE_def)
  ultimately show
    "detectLanguageFromEntity (pre @ ''_print_status'' @ tail) = en \<and>
     detectLanguageFromEntity (pre @ ''_druckstatus'' @ tail) = de \<and>
     detectLanguageFromEntity (pre @ ''_printstatus'' @ tail) = nl \<and>
     detectLanguageFromEntity (pre @ ''_estado_de_la_impresion'' @ tail) = es \<and>
     detectLanguageFromEntity (pre @ ''_stato_di_stampa'' @ tail) = it"
    by simp
next
  assume "\<forall>sfx pre tail.
        sfx \<in> set [''print_status'', ''druckstatus'', ''printstatus'',
                   ''estado_de_la_impresion'', ''stato_di_stampa''] \<and>
        disambiguator tail \<longrightarrow>
        x \<noteq> pre @ CHR ''_'' # sfx @ tail"
  then have "\<forall>sfx \<in> set [''print_status'', ''druckstatus'', ''printstatus'',
                   ''estado_de_la_impresion'', ''stato_di_stampa'']. \<not> has_status_suffix x sfx"
    unfolding has_status_suffix_iff by blast
  then have "\<forall>sfx \<in> fst ` set PRINT_STATUS_TO_LANGUAGE. \<not> has_status_suffix x sfx"
    by (simp add: PRINT_STATUS_TO_LANGUAGE_def)
  then show "detectLanguageFromEntity x = en"
    unfolding detectLanguageFromEntity_def by (rule detect_loop_none)
qed

text \<open>A printer in each of the five locales, the second printer of a hub among them, and
  a sensor that is no print status.\<close>

theorem detectLanguageFromEntity_locale_witness:
  "disambiguator [] \<and> disambiguator ''_2'' \<and>
   detectLanguageFromEntity ''sensor.p1s_print_status'' = en \<and>
   detectLanguageFromEntity ''sensor.p1s_druckstatus'' = de \<and>
   detectLanguageFromEntity ''sensor.p1s_printstatus'' = nl \<and>
   detectLanguageFromEntity ''sensor.p1s_estado_de_la_impresion'' = es \<and>
   detectLanguageFromEntity ''sensor.p1s_stato_di_stampa'' = it \<and>
   detectLanguageFromEntity ''sensor.p1s_print_status_2'' = en \<and>
   detectLanguageFromEntity ''sensor.p1s_druckstatus_2'' = de \<and>
   detectLanguageFromEntity ''sensor.p1s_printstatus_2'' = nl \<and>
   detectLanguageFromEntity ''sensor.p1s_estado_de_la_impresion_2'' = es \<and>
   detectLanguageFromEntity ''sensor.p1s_stato_di_stampa_2'' = it \<and>
   detectLanguageFromEntity ''sensor.p1s_nozzle_temperature'' = en"
proof -
  have d: "disambiguator []" "disambiguator ''_2''"
    by (simp_all add: disambiguator_def is_digit_def)
  have "\<forall>sfx \<in> set [''print_status'', ''druckstatus'', ''printstatus'',
                   ''estado_de_la_impresion'', ''stato_di_stampa''].
          \<not> has_status_suffix ''sensor.p1s_nozzle_temperature'' sfx"
    by (simp add: has_status_suffix_def endsWith_def match_versioned_at_def)
  then have h: "\<forall>sfx pre tail.
        sfx \<in> set [''print_status'', ''druckstatus'', ''printstatus'',
                   ''estado_de_la_impresion'', ''stato_di_stampa''] \<and>
        disambiguator tail \<longrightarrow>
        ''sensor.p1s_nozzle_temperature'' \<noteq> pre @ CHR ''_'' # sfx @ tail"
    unfolding has_status_suffix_iff by blast
  from d h
    detectLanguageFromEntity_locale [where tail = "[]" and pre = "''sensor.p1s''"
      and x = "''sensor.p1s_nozzle_temperature''"]
    detectLanguageFromEntity_locale [where tail = "''_2''" and pre = "''sensor.p1s''"
      and x = "''sensor.p1s_nozzle_temperature''"]
  show ?thesis by simp
qed

subsection \<open>Appending a disambiguator\<close>

lemma match_status_tail_iff:
  "match_status_tail sfx t \<longleftrightarrow> (\<exists>tail. t = CHR ''_'' # sfx @ tail \<and> disambiguator tail)"
proof -
  have "match_status_tail sfx t \<longleftrightarrow>
          (\<exists>r. strip_literal (CHR ''_'' # sfx) t = Some r \<and> (r = [] \<or> version_tail r))"
    by (cases "strip_literal (CHR ''_'' # sfx) t") (simp_all add: match_status_tail_def)
  then show ?thesis
    by (simp add: strip_literal_iff disambiguator_def)
qed

lemma disambiguator_2 [simp]: "disambiguator ''_2''"
  by (simp add: disambiguator_def is_digit_def)

lemma disambiguator_last:
  "disambiguator tail \<Longrightarrow> tail \<noteq> [] \<Longrightarrow> is_digit (last tail)"
  by (auto simp: disambiguator_def version_tail_iff list_all_iff)

lemma match_status_tail_append_2:
  assumes "sfx \<in> set PRINT_STATUS_SUFFIXES" and "cs = [] \<or> \<not> is_digit (last cs)"
  shows "match_status_tail sfx (cs @ ''_2'') = match_status_tail sfx cs"
proof
  assume "match_status_tail sfx (cs @ ''_2'')"
  then obtain tail where eq: "cs @ ''_2'' = CHR ''_'' # sfx @ tail" and d: "disambiguator tail"
    by (auto simp: match_status_tail_iff)
  have "takeWhile is_digit (rev (cs @ ''_2'')) = ''2''"
    by (simp add: is_digit_def)
  moreover have "takeWhile is_digit (rev ([] @ CHR ''_'' # sfx @ tail)) = rev (tl tail)"
    using assms(1) d by (rule trailing_digits)
  ultimately have "tl tail = ''2''"
    using eq by (metis append_Nil rev_rev_ident rev_singleton_conv)
  with d have "tail = ''_2''"
    by (auto simp: disambiguator_def version_tail_iff)
  with eq have "cs = CHR ''_'' # sfx @ []" by simp
  then show "match_status_tail sfx cs"
    unfolding match_status_tail_iff by (metis disambiguator_def)
next
  assume "match_status_tail sfx cs"
  then obtain tail where eq: "cs = CHR ''_'' # sfx @ tail" and d: "disambiguator tail"
    by (auto simp: match_status_tail_iff)
  have "tail = []"
  proof (rule ccontr)
    assume "tail \<noteq> []"
    with d eq have "is_digit (last cs)" by (simp add: disambiguator_last)
    with assms(2) eq show False by simp
  qed
  with eq have "cs @ ''_2'' = CHR ''_'' # sfx @ ''_2''" by simp
  then show "match_status_tail sfx (cs @ ''_2'')"
    unfolding match_status_tail_iff using disambiguator_2 by blast
qed

lemma status_tail_append_2:
  "cs = [] \<or> \<not> is_digit (last cs) \<Longrightarrow> status_tail (cs @ ''_2'') = status_tail cs"
  by (simp add: status_tail_def list_ex_iff match_status_tail_append_2)

lemma status_tail_short [simp]: "\<not> status_tail []" "\<not> status_tail ''2''"
  by (simp_all add: status_tail_def match_status_tail_def PRINT_STATUS_SUFFIXES_def)

lemma lazy_group_append_2:
  "q = [] \<or> \<not> is_digit (last q) \<Longrightarrow> lazy_group acc (q @ ''_2'') = lazy_group acc q"
proof (induction q arbitrary: acc)
  case Nil
  show ?case by (simp add: is_line_terminator_def)
next
  case (Cons c cs)
  then have tl: "cs = [] \<or> \<not> is_digit (last cs)" by auto
  with Cons.IH have "lazy_group (acc @ [c]) (cs @ ''_2'') = lazy_group (acc @ [c]) cs" .
  with tl show ?case by (simp add: status_tail_append_2)
qed

lemma match_status_tail_short:
  "sfx \<in> set PRINT_STATUS_SUFFIXES \<Longrightarrow>
   \<not> match_status_tail sfx ''_2'' \<and> \<not> match_status_tail sfx ''2''"
  by (simp add: match_status_tail_def PRINT_STATUS_SUFFIXES_def, elim disjE, simp_all)

lemma replace_append_2:
  assumes "sfx \<in> set PRINT_STATUS_SUFFIXES" and "q = [] \<or> \<not> is_digit (last q)"
  shows "replace_status_tail sfx (q @ ''_2'') = replace_status_tail sfx q \<or>
         replace_status_tail sfx (q @ ''_2'') = q @ ''_2'' \<and> replace_status_tail sfx q = q"
  using assms(2)
proof (induction q)
  case Nil
  show ?case using match_status_tail_short [OF assms(1)] by simp
next
  case (Cons c cs)
  then have tl: "cs = [] \<or> \<not> is_digit (last cs)" by auto
  have "match_status_tail sfx ((c # cs) @ ''_2'') = match_status_tail sfx (c # cs)"
    using assms(1) Cons.prems by (rule match_status_tail_append_2)
  with Cons.IH [OF tl] show ?case by auto
qed

lemma replace_length: "length (replace_status_tail sfx xs) \<le> length xs"
  by (induction xs) auto

lemma replace_same_or_shorter:
  "replace_status_tail sfx xs = xs \<or> length (replace_status_tail sfx xs) < length xs"
  by (induction xs) auto

lemma replace_hit:
  "match_status_tail sfx t \<Longrightarrow> length (replace_status_tail sfx (p @ t)) < length (p @ t)"
proof (induction p)
  case Nil
  then have "t \<noteq> []" by (auto simp: match_status_tail_iff)
  with Nil show ?case by (cases t) auto
next
  case (Cons c p)
  then show ?case by auto
qed

lemma strip_known_patterns_snoc:
  "strip_known_patterns (xs @ [x]) a = replace_status_tail x (strip_known_patterns xs a)"
  by (induction xs arbitrary: a) auto

lemma strip_known_patterns_length: "length (strip_known_patterns L a) \<le> length a"
proof (induction L arbitrary: a)
  case Nil
  show ?case by simp
next
  case (Cons x xs)
  have "length (strip_known_patterns xs (replace_status_tail x a))
          \<le> length (replace_status_tail x a)"
    by (rule Cons.IH)
  also have "\<dots> \<le> length a" by (rule replace_length)
  finally show ?case by simp
qed

lemma strip_known_patterns_hit:
  "sfx \<in> set L \<Longrightarrow> match_status_tail sfx t \<Longrightarrow>
   length (strip_known_patterns L (p @ t)) < length (p @ t)"
proof (induction L)
  case Nil
  then show ?case by simp
next
  case (Cons x xs)
  show ?case
  proof (cases "replace_status_tail x (p @ t) = p @ t")
    case True
    have "x \<noteq> sfx"
      using replace_hit [OF Cons.prems(2), of p] True by auto
    with Cons.prems have "sfx \<in> set xs" by auto
    with Cons True show ?thesis by simp
  next
    case False
    then have "length (replace_status_tail x (p @ t)) < length (p @ t)"
      using replace_same_or_shorter by blast
    moreover have "length (strip_known_patterns xs (replace_status_tail x (p @ t)))
                     \<le> length (replace_status_tail x (p @ t))"
      by (rule strip_known_patterns_length)
    ultimately show ?thesis by simp
  qed
qed

lemma strip_known_patterns_append_2:
  assumes "set L \<subseteq> set PRINT_STATUS_SUFFIXES" and "q = [] \<or> \<not> is_digit (last q)"
  shows "strip_known_patterns L (q @ ''_2'') = strip_known_patterns L q \<or>
         strip_known_patterns L (q @ ''_2'') = q @ ''_2'' \<and> strip_known_patterns L q = q"
  using assms(1)
proof (induction L rule: rev_induct)
  case Nil
  show ?case by simp
next
  case (snoc x xs)
  then have x: "x \<in> set PRINT_STATUS_SUFFIXES" and xs: "set xs \<subseteq> set PRINT_STATUS_SUFFIXES"
    by auto
  from snoc.IH [OF xs] replace_append_2 [OF x assms(2)]
  show ?case by (auto simp: strip_known_patterns_snoc)
qed

lemma suffix_no_dot:
  "sfx \<in> set PRINT_STATUS_SUFFIXES \<Longrightarrow> CHR ''.'' \<notin> set (CHR ''_'' # sfx)"
  by (simp add: PRINT_STATUS_SUFFIXES_def, elim disjE, simp_all)

lemma startsWith_iff: "startsWith x p \<longleftrightarrow> (\<exists>r. x = p @ r)"
  unfolding startsWith_def by (metis append_eq_conv_conj)

text \<open>A print-status identifier that does not end in a digit is \<open>sensor.\<close>, a printer
  prefix, an underscore and one of the suffixes.\<close>

lemma print_status_entity_shape:
  assumes "isPrintStatusEntity x" and "\<not> is_digit (last x)"
  obtains p sfx where "sfx \<in> set PRINT_STATUS_SUFFIXES" and "x = ''sensor.'' @ p @ CHR ''_'' # sfx"
proof -
  from assms(1) obtain q where q: "x = ''sensor.'' @ q"
    by (auto simp: isPrintStatusEntity_def startsWith_iff split: if_splits)
  from assms(1) obtain sfx where sfx: "sfx \<in> set PRINT_STATUS_SUFFIXES"
    and "has_status_suffix x sfx"
    by (auto simp: isPrintStatusEntity_def list_ex_iff split: if_splits)
  then obtain pre tail where x: "x = pre @ CHR ''_'' # sfx @ tail" and d: "disambiguator tail"
    by (auto simp: has_status_suffix_iff)
  have "tail = []"
  proof (rule ccontr)
    assume "tail \<noteq> []"
    with d x have "is_digit (last x)" by (simp add: disambiguator_last)
    with assms(2) show False by simp
  qed
  with x have x': "x = pre @ CHR ''_'' # sfx" by simp
  with q have "''sensor.'' @ q = pre @ CHR ''_'' # sfx" by simp
  then obtain us where
    "''sensor.'' = pre @ us \<and> us @ q = CHR ''_'' # sfx \<or>
     ''sensor.'' @ us = pre \<and> q = us @ CHR ''_'' # sfx"
    unfolding append_eq_append_conv2 by blast
  then consider "''sensor.'' = pre @ us" "us @ q = CHR ''_'' # sfx"
    | "q = us @ CHR ''_'' # sfx"
    by blast
  then show thesis
  proof cases
    case 1
    have "us = []"
    proof (rule ccontr)
      assume "us \<noteq> []"
      with 1(1) have "last us = CHR ''.''"
        by (metis last_appendR last_ConsL last_ConsR list.distinct(1))
      with \<open>us \<noteq> []\<close> have "CHR ''.'' \<in> set us" by (metis last_in_set)
      then have "CHR ''.'' \<in> set (us @ q)" by simp
      with 1(2) suffix_no_dot [OF sfx] show False by simp
    qed
    with 1(2) q have "x = ''sensor.'' @ [] @ CHR ''_'' # sfx" by simp
    with sfx that show thesis by blast
  next
    case 2
    with q have "x = ''sensor.'' @ us @ CHR ''_'' # sfx" by simp
    with sfx that show thesis by blast
  qed
qed

text \<open>
  Claim C6, as the code has it. For every print-status entity identifier \<open>x\<close> that does
  not itself end in a numeric disambiguator, \<open>extractPrinterPrefix\<close> gives \<open>x\<close> and
  \<open>x + "_2"\<close> the same prefix (the pattern strips the disambiguator), and both are
  print-status identifiers for \<open>isPrintStatusEntity\<close>.
\<close>

theorem extractPrinterPrefix_disambiguator:
  assumes "isPrintStatusEntity x" and "\<not> is_digit (last x)"
  shows "extractPrinterPrefix (x @ ''_2'') = extractPrinterPrefix x \<and>
         isPrintStatusEntity (x @ ''_2'')"
proof -
  from assms obtain p sfx where sfx: "sfx \<in> set PRINT_STATUS_SUFFIXES"
    and x: "x = ''sensor.'' @ p @ CHR ''_'' # sfx"
    by (rule print_status_entity_shape)
  define q where "q = p @ CHR ''_'' # sfx"
  have xq: "x = ''sensor.'' @ q" and x2: "x @ ''_2'' = ''sensor.'' @ (q @ ''_2'')"
    using x by (simp_all add: q_def)
  have "last q = last x" using x by (simp add: q_def)
  with assms(2) have nd: "q = [] \<or> \<not> is_digit (last q)" by simp
  have strip: "strip_literal ''sensor.'' x = Some q"
    "strip_literal ''sensor.'' (x @ ''_2'') = Some (q @ ''_2'')"
    using xq x2 by (simp_all only: strip_literal_iff)
  have group: "buildPrintStatusPattern (x @ ''_2'') = buildPrintStatusPattern x"
    using strip nd by (simp add: buildPrintStatusPattern_def lazy_group_append_2)
  have "match_status_tail sfx (CHR ''_'' # sfx)"
    unfolding match_status_tail_iff by (metis append_Nil2 disambiguator_def)
  then have "length (strip_known_patterns PRINT_STATUS_SUFFIXES (p @ CHR ''_'' # sfx))
               < length (p @ CHR ''_'' # sfx)"
    using sfx by (intro strip_known_patterns_hit)
  then have "strip_known_patterns PRINT_STATUS_SUFFIXES q \<noteq> q"
    unfolding q_def by auto
  then have loop: "strip_known_patterns PRINT_STATUS_SUFFIXES (q @ ''_2'')
                     = strip_known_patterns PRINT_STATUS_SUFFIXES q"
    using strip_known_patterns_append_2 [OF subset_refl nd] by blast
  have rs: "replace_sensor x = q" "replace_sensor (x @ ''_2'') = q @ ''_2''"
    using strip by (simp_all add: replace_sensor_def)
  have prefix: "extractPrinterPrefix (x @ ''_2'') = extractPrinterPrefix x"
    using group rs loop
    by (cases "buildPrintStatusPattern x") (simp_all add: extractPrinterPrefix_def)
  have "x @ ''_2'' = (''sensor.'' @ p) @ CHR ''_'' # sfx @ ''_2''"
    using x by simp
  then have "has_status_suffix (x @ ''_2'') sfx"
    unfolding has_status_suffix_iff using disambiguator_2 by blast
  moreover have "startsWith (x @ ''_2'') ''sensor.''"
    unfolding startsWith_iff using x2 by blast
  ultimately have "isPrintStatusEntity (x @ ''_2'')"
    using sfx by (auto simp: isPrintStatusEntity_def list_ex_iff)
  with prefix show ?thesis by simp
qed

lemmas pattern_defs =
  extractPrinterPrefix_def buildPrintStatusPattern_def status_tail_def match_status_tail_def
  replace_sensor_def isPrintStatusEntity_def startsWith_def has_status_suffix_def
  endsWith_def match_versioned_at_def PRINT_STATUS_SUFFIXES_def is_line_terminator_def
  is_digit_def

text \<open>The German identifier of a P1S and its second instance.\<close>

theorem extractPrinterPrefix_disambiguator_witness:
  "isPrintStatusEntity ''sensor.bambulab_p1s_druckstatus'' \<and>
   \<not> is_digit (last ''sensor.bambulab_p1s_druckstatus'') \<and>
   extractPrinterPrefix (''sensor.bambulab_p1s_druckstatus'' @ ''_2'') =
     extractPrinterPrefix ''sensor.bambulab_p1s_druckstatus'' \<and>
   isPrintStatusEntity (''sensor.bambulab_p1s_druckstatus'' @ ''_2'')"
proof -
  have h: "isPrintStatusEntity ''sensor.bambulab_p1s_druckstatus''"
    "\<not> is_digit (last ''sensor.bambulab_p1s_druckstatus'')"
    by (simp_all add: isPrintStatusEntity_def startsWith_def has_status_suffix_def
        endsWith_def PRINT_STATUS_SUFFIXES_def is_digit_def)
  from h extractPrinterPrefix_disambiguator [OF h] show ?thesis by blast
qed

text \<open>
  Claim C6 as it is worded asks for two distinct prefixes. For \<open>sensor.foo_print_status\<close>
  both prefixes are \<open>foo\<close>; and an identifier that already carries a disambiguator stops
  being a print-status identifier when \<open>_2\<close> is appended.
\<close>

theorem extractPrinterPrefix_same_prefix:
  "isPrintStatusEntity ''sensor.foo_print_status'' \<and>
   extractPrinterPrefix ''sensor.foo_print_status'' = ''foo'' \<and>
   extractPrinterPrefix (''sensor.foo_print_status'' @ ''_2'') = ''foo'' \<and>
   isPrintStatusEntity ''sensor.foo_print_status_3'' \<and>
   \<not> isPrintStatusEntity (''sensor.foo_print_status_3'' @ ''_2'')"
  by (simp add: pattern_defs)

section \<open>Properties of the webhook handler\<close>

lemmas io_defs =
  return_io_def throw_io_def bind_io_def try_catch_def request_json_io_def
  activityLog_create_def spoolmanConnection_findFirst_def getSpools_def useWeight_def
  assignSpoolToTray_def emit_def

lemmas handler_defs = POST_def POST_try_def POST_catch_def

lemma find_first:
  "\<forall>s\<in>set pre. \<not> P s \<Longrightarrow> P x \<Longrightarrow> find P (pre @ x # post) = Some x"
  by (induction pre) auto


lemma no_weight_iff:
  "no_weight uw \<longleftrightarrow> uw = None \<or> (\<exists>n. uw = Some n \<and> n \<le> 0)"
  by (auto simp: no_weight_def split: option.splits)

lemma falsy_iff: "falsy str \<longleftrightarrow> str = None \<or> str = Some []"
  by (auto simp: falsy_def split: option.splits)

subsection \<open>The outcomes of a delivery\<close>

text \<open>
  Each outcome is stated as the world and the response that the handler leaves: the
  records appended to the activity log, the inventory calls made, the events published.
  A field of the world that the equation does not update is unchanged.
\<close>






text \<open>
  Claim C3. A \<open>spool_usage\<close> delivery whose \<open>used_weight\<close> is absent or not positive, or
  whose \<open>active_tray_id\<close> is absent (or the empty string, which the handler does not
  tell from an absent one), is answered with status \<open>ignored\<close>; the inventory is neither
  read nor changed. This holds with and without a stored connection.
\<close>

theorem POST_spool_usage_ignored:
  assumes "request_json e = Inr (JsonObject p)"
    and "create_result e (webhook_record p) = None"
    and "findFirst_result e = Inr connection"
    and "event p = Some ''spool_usage''"
    and "used_weight p = None \<or> (\<exists>n. used_weight p = Some n \<and> n \<le> 0) \<or>
         active_tray_id p = None \<or> active_tray_id p = Some []"
  shows "\<exists>resp. POST e w = (w\<lparr>activityLog := activityLog w @ [webhook_record p]\<rparr>, Inr resp) \<and>
           status (body resp) = Some ''ignored'' \<and> http_status resp = 200"
proof (cases connection)
  case None
  with assms(1-3) show ?thesis by (auto simp: handler_defs io_defs json_def)
next
  case (Some client)
  from assms(5) have "no_weight (used_weight p) \<or> falsy (active_tray_id p)"
    by (auto simp: no_weight_iff falsy_iff)
  with Some assms(1-4) show ?thesis
    by (auto simp: handler_defs spool_usage_def io_defs json_def)
qed

text \<open>A used weight of zero.\<close>

theorem POST_spool_usage_ignored_witness:
  "\<exists>resp.
     POST (usage_env\<lparr>request_json :=
             Inr (JsonObject (usage_payload\<lparr>used_weight := Some 0\<rparr>))\<rparr>) world0 =
       (world0\<lparr>activityLog := activityLog world0 @
           [webhook_record (usage_payload\<lparr>used_weight := Some 0\<rparr>)]\<rparr>,
        Inr resp) \<and>
     status (body resp) = Some ''ignored'' \<and> http_status resp = 200"
  using
    POST_spool_usage_ignored [where e = "usage_env\<lparr>request_json :=
             Inr (JsonObject (usage_payload\<lparr>used_weight := Some 0\<rparr>))\<rparr>"
      and p = "usage_payload\<lparr>used_weight := Some 0\<rparr>" and w = world0
      and connection = "Some ''http://spoolman:7912''"]
  by (simp add: usage_env_def usage_payload_def)









subsection \<open>What each branch writes to the activity log\<close>

lemma spool_usage_log:
  assumes "\<forall>r. create_result e r = None"
  shows "(\<exists>w2 err. spool_usage e client p w1 = (w2, Inl err) \<and> activityLog w2 = activityLog w1) \<or>
         (\<exists>w2 resp r. spool_usage e client p w1 = (w2, Inr resp) \<and>
            ((\<exists>sid d nw. body resp = UsageSuccess sid d nw) \<and> type r = ''spool_usage'' \<and>
               activityLog w2 = activityLog w1 @ [r] \<or>
             ((\<exists>x. body resp = Ignored x) \<or> (\<exists>x. body resp = NoMatch x)) \<and>
               activityLog w2 = activityLog w1))"
  using assms
  by (auto simp: spool_usage_def io_defs json_def usage_record_def Let_def
      split: sum.splits option.splits)

lemma tray_change_log:
  assumes "\<forall>r. create_result e r = None"
  shows "(\<exists>w2 err. tray_change e client p w1 = (w2, Inl err) \<and> activityLog w2 = activityLog w1) \<or>
         (\<exists>w2 resp r. tray_change e client p w1 = (w2, Inr resp) \<and>
            ((\<exists>s by. body resp = AssignSuccess s by) \<and> type r = ''spool_change'' \<and>
               activityLog w2 = activityLog w1 @ [r] \<or>
             (\<exists>x. body resp = NoMatch x) \<and> activityLog w2 = activityLog w1))"
  using assms
  by (auto simp: tray_change_def io_defs json_def change_record_def Let_def
      split: sum.splits option.splits)

lemma POST_try_log:
  assumes "\<forall>r. create_result e r = None" and "request_json e = Inr b"
  shows "(\<exists>w2 err rs. POST_try e w = (w2, Inl err) \<and>
            activityLog w2 = activityLog w @ rs \<and>
            map type rs = butlast (records_of_outcome b (Failure x))) \<or>
         (\<exists>w2 resp rs. POST_try e w = (w2, Inr resp) \<and>
            activityLog w2 = activityLog w @ rs \<and>
            map type rs = records_of_outcome b (body resp))"
proof (cases b)
  case JsonNull
  with assms show ?thesis by (simp add: POST_try_def io_defs)
next
  case (JsonObject p)
  show ?thesis
  proof (cases "findFirst_result e")
    case (Inl err)
    with JsonObject assms show ?thesis
      by (simp add: POST_try_def io_defs webhook_record_def)
  next
    case (Inr connection)
    show ?thesis
    proof (cases connection)
      case None
      with Inr JsonObject assms show ?thesis
        by (simp add: POST_try_def io_defs webhook_record_def json_def)
    next
      case (Some client)
      let ?w1 = "w\<lparr>activityLog := activityLog w @ [webhook_record p]\<rparr>"
      have step: "POST_try e w =
        (if event p = Some ''spool_usage'' then spool_usage e client p ?w1
         else if event p = Some ''tray_change'' then tray_change e client p ?w1
         else (?w1, Inr (json (Ignored ''unknown event type''))))"
        using Some Inr JsonObject assms by (simp add: POST_try_def io_defs)
      consider "event p = Some ''spool_usage''" | "event p = Some ''tray_change''"
        | "event p \<noteq> Some ''spool_usage''" "event p \<noteq> Some ''tray_change''"
        by blast
      then show ?thesis
      proof cases
        case 1
        with step have eq: "POST_try e w = spool_usage e client p ?w1" by simp
        from spool_usage_log [OF assms(1), of client p ?w1] JsonObject show ?thesis
          unfolding eq by (auto simp: webhook_record_def)
      next
        case 2
        with step have eq: "POST_try e w = tray_change e client p ?w1" by simp
        from tray_change_log [OF assms(1), of client p ?w1] JsonObject show ?thesis
          unfolding eq by (auto simp: webhook_record_def)
      next
        case 3
        with step JsonObject show ?thesis
          by (simp add: json_def webhook_record_def)
      qed
    qed
  qed
qed

text \<open>
  Claim C7, as the code has it. For every delivery whose body parses as JSON, on an
  activity log that accepts every record, the handler returns a response and has
  appended at least one record by then: the \<open>webhook\<close> record alone on the outcomes
  \<open>ignored\<close> and \<open>no_match\<close>; the \<open>webhook\<close> record and then a \<open>spool_usage\<close> or
  \<open>spool_change\<close> record on \<open>success\<close>; on a failure the \<open>error\<close> record, after the
  \<open>webhook\<close> record unless the body is \<open>null\<close>.
\<close>

theorem POST_activity_records:
  assumes "request_json e = Inr b" and "\<forall>r. create_result e r = None"
  shows "\<exists>resp. snd (POST e w) = Inr resp \<and>
           map type (new_records w (fst (POST e w))) = records_of_outcome b (body resp)"
proof -
  from POST_try_log [OF assms(2,1), of w "''Webhook processing failed''"]
  consider w2 err rs where "POST_try e w = (w2, Inl err)"
      "activityLog w2 = activityLog w @ rs"
      "map type rs = butlast (records_of_outcome b (Failure ''Webhook processing failed''))"
    | w2 resp rs where "POST_try e w = (w2, Inr resp)"
      "activityLog w2 = activityLog w @ rs"
      "map type rs = records_of_outcome b (body resp)"
    by blast
  then show ?thesis
  proof cases
    case 1
    have "POST e w =
            (w2\<lparr>activityLog := activityLog w2 @ [error_record err]\<rparr>, Inr failure_response)"
      using 1(1) assms(2)
      by (simp add: POST_def POST_catch_def io_defs failure_response_def)
    moreover have "map type (rs @ [error_record err])
        = records_of_outcome b (Failure ''Webhook processing failed'')"
      using 1(3) by (cases b) (simp_all add: error_record_def)
    ultimately show ?thesis
      using 1(2) by (simp add: new_records_def failure_response_def json_status_def)
  next
    case 2
    then have "POST e w = (w2, Inr resp)"
      by (simp add: POST_def io_defs)
    with 2(2,3) show ?thesis by (simp add: new_records_def)
  qed
qed

text \<open>The example delivery of a used weight.\<close>

theorem POST_activity_records_witness:
  "\<exists>resp. snd (POST usage_env world0) = Inr resp \<and>
     map type (new_records world0 (fst (POST usage_env world0))) =
       records_of_outcome (JsonObject usage_payload) (body resp)"
  using POST_activity_records [where e = usage_env and b = "JsonObject usage_payload"
      and w = world0]
  by (simp add: usage_env_def)

text \<open>
  Claim C7 as it is worded asks for exactly one record. The successful \<open>spool_usage\<close>
  delivery of the example leaves two.
\<close>

theorem POST_activity_records_two:
  "map type (new_records world0 (fst (POST usage_env world0))) = [''webhook'', ''spool_usage''] \<and>
   snd (POST usage_env world0) = Inr (json (UsageSuccess 1 50 750))"
  by (simp add: usage_env_def usage_payload_def world0_def spool1_def spool3_def
      handler_defs spool_usage_def io_defs falsy_def no_weight_def
      new_records_def JSON_stringify_def quote_char_def webhook_record_def usage_record_def
      Let_def)

text \<open>
  Claim C8. When a step of a delivery throws (parsing the body or destructuring a \<open>null\<close>
  body, reading the inventory, deducting the weight, assigning the spool), the exception
  is caught: a record of type \<open>error\<close> that carries the message of the exception is
  appended (the activity log is taken to accept it), the response is the generic failure
  object with HTTP status 500, and the call that threw is the last inventory call of the
  delivery; no event is published.
\<close>

theorem POST_exception_caught:
  assumes "create_result e (error_record err) = None"
  shows
    "(request_json e = Inl err \<or> request_json e = Inr JsonNull \<and> err = destructure_null
      \<longrightarrow>
        POST e w =
          (w\<lparr>activityLog := activityLog w @
             [\<lparr>type = ''error'', message = [Lit ''Webhook processing failed''],
              details = ErrorDetails err\<rparr>]\<rparr>,
           Inr \<lparr>body = Failure ''Webhook processing failed'', http_status = 500\<rparr>))
     \<and>
     (request_json e = Inr (JsonObject p) \<and> create_result e (webhook_record p) = None \<and>
      findFirst_result e = Inr (Some client) \<and>
      (event p = Some ''tray_change'' \<or>
       event p = Some ''spool_usage'' \<and> (\<exists>uw. used_weight p = Some uw \<and> 0 < uw) \<and>
         (\<exists>tray. active_tray_id p = Some tray \<and> tray \<noteq> [])) \<and>
      getSpools_result e client = Inl err \<longrightarrow>
        POST e w =
          (w\<lparr>activityLog := activityLog w @ [webhook_record p,
              \<lparr>type = ''error'', message = [Lit ''Webhook processing failed''],
              details = ErrorDetails err\<rparr>],
             calls := calls w @ [GetSpools]\<rparr>,
           Inr \<lparr>body = Failure ''Webhook processing failed'', http_status = 500\<rparr>))
     \<and>
     (request_json e = Inr (JsonObject p) \<and> create_result e (webhook_record p) = None \<and>
      findFirst_result e = Inr (Some client) \<and> event p = Some ''spool_usage'' \<and>
      used_weight p = Some uw \<and> 0 < uw \<and> active_tray_id p = Some tray \<and> tray \<noteq> [] \<and>
      getSpools_result e client = Inr (before @ S # after) \<and>
      extra S ''active_tray'' = Some (JSON_stringify tray) \<and>
      (\<forall>s\<in>set before. extra s ''active_tray'' \<noteq> Some (JSON_stringify tray)) \<and>
      useWeight_result e client (id' S) uw = Some err \<longrightarrow>
        POST e w =
          (w\<lparr>activityLog := activityLog w @ [webhook_record p,
              \<lparr>type = ''error'', message = [Lit ''Webhook processing failed''],
              details = ErrorDetails err\<rparr>],
             calls := calls w @ [GetSpools, UseWeight (id' S) uw]\<rparr>,
           Inr \<lparr>body = Failure ''Webhook processing failed'', http_status = 500\<rparr>))
     \<and>
     (request_json e = Inr (JsonObject p) \<and> create_result e (webhook_record p) = None \<and>
      findFirst_result e = Inr (Some client) \<and> event p = Some ''tray_change'' \<and>
      tag_uid p = Some tag \<and> tag \<noteq> [] \<and> tag \<noteq> ''unknown'' \<and>
      getSpools_result e client = Inr (before @ S # after) \<and>
      extra S ''tag_uid'' = Some (JSON_stringify tag) \<and>
      (\<forall>s\<in>set before. extra s ''tag_uid'' \<noteq> Some (JSON_stringify tag)) \<and>
      assignSpoolToTray_result e client (id' S) (tray_entity_id p) = Some err \<longrightarrow>
        POST e w =
          (w\<lparr>activityLog := activityLog w @ [webhook_record p,
              \<lparr>type = ''error'', message = [Lit ''Webhook processing failed''],
              details = ErrorDetails err\<rparr>],
             calls := calls w @ [GetSpools, AssignSpoolToTray (id' S) (tray_entity_id p)]\<rparr>,
           Inr \<lparr>body = Failure ''Webhook processing failed'', http_status = 500\<rparr>))"
proof (intro conjI impI)
  assume "request_json e = Inl err \<or> request_json e = Inr JsonNull \<and> err = destructure_null"
  with assms show "POST e w =
      (w\<lparr>activityLog := activityLog w @
             [\<lparr>type = ''error'', message = [Lit ''Webhook processing failed''],
              details = ErrorDetails err\<rparr>]\<rparr>,
           Inr \<lparr>body = Failure ''Webhook processing failed'', http_status = 500\<rparr>)"
    by (auto simp: handler_defs io_defs error_record_def json_status_def)
next
  assume a: "request_json e = Inr (JsonObject p) \<and> create_result e (webhook_record p) = None \<and>
      findFirst_result e = Inr (Some client) \<and>
      (event p = Some ''tray_change'' \<or>
       event p = Some ''spool_usage'' \<and> (\<exists>uw. used_weight p = Some uw \<and> 0 < uw) \<and>
         (\<exists>tray. active_tray_id p = Some tray \<and> tray \<noteq> [])) \<and>
      getSpools_result e client = Inl err"
  then consider "event p = Some ''tray_change''"
    | "event p = Some ''spool_usage''" "\<not> no_weight (used_weight p)"
      "\<not> falsy (active_tray_id p)"
    by (auto simp: no_weight_iff falsy_iff)
  then show "POST e w =
      (w\<lparr>activityLog := activityLog w @ [webhook_record p,
              \<lparr>type = ''error'', message = [Lit ''Webhook processing failed''],
              details = ErrorDetails err\<rparr>],
         calls := calls w @ [GetSpools]\<rparr>,
       Inr \<lparr>body = Failure ''Webhook processing failed'', http_status = 500\<rparr>)"
  proof cases
    case 1
    with a assms show ?thesis
      by (simp add: handler_defs tray_change_def io_defs error_record_def json_status_def)
  next
    case 2
    with a assms show ?thesis
      by (simp add: handler_defs spool_usage_def io_defs error_record_def json_status_def)
  qed
next
  assume a: "request_json e = Inr (JsonObject p) \<and> create_result e (webhook_record p) = None \<and>
      findFirst_result e = Inr (Some client) \<and> event p = Some ''spool_usage'' \<and>
      used_weight p = Some uw \<and> 0 < uw \<and> active_tray_id p = Some tray \<and> tray \<noteq> [] \<and>
      getSpools_result e client = Inr (before @ S # after) \<and>
      extra S ''active_tray'' = Some (JSON_stringify tray) \<and>
      (\<forall>s\<in>set before. extra s ''active_tray'' \<noteq> Some (JSON_stringify tray)) \<and>
      useWeight_result e client (id' S) uw = Some err"
  then have "find (\<lambda>s. extra s ''active_tray'' = Some (JSON_stringify tray))
               (before @ S # after) = Some S"
    by (simp add: find_first)
  moreover from a have "\<not> no_weight (used_weight p)" "\<not> falsy (active_tray_id p)"
    by (auto simp: no_weight_iff falsy_iff)
  ultimately show "POST e w =
      (w\<lparr>activityLog := activityLog w @ [webhook_record p,
              \<lparr>type = ''error'', message = [Lit ''Webhook processing failed''],
              details = ErrorDetails err\<rparr>],
         calls := calls w @ [GetSpools, UseWeight (id' S) uw]\<rparr>,
       Inr \<lparr>body = Failure ''Webhook processing failed'', http_status = 500\<rparr>)"
    using a assms by (simp add: handler_defs spool_usage_def io_defs error_record_def json_status_def)
next
  assume a: "request_json e = Inr (JsonObject p) \<and> create_result e (webhook_record p) = None \<and>
      findFirst_result e = Inr (Some client) \<and> event p = Some ''tray_change'' \<and>
      tag_uid p = Some tag \<and> tag \<noteq> [] \<and> tag \<noteq> ''unknown'' \<and>
      getSpools_result e client = Inr (before @ S # after) \<and>
      extra S ''tag_uid'' = Some (JSON_stringify tag) \<and>
      (\<forall>s\<in>set before. extra s ''tag_uid'' \<noteq> Some (JSON_stringify tag)) \<and>
      assignSpoolToTray_result e client (id' S) (tray_entity_id p) = Some err"
  then have "find (\<lambda>s. extra s ''tag_uid'' = Some (JSON_stringify tag))
               (before @ S # after) = Some S"
    by (simp add: find_first)
  moreover from a have "\<not> falsy (tag_uid p)"
    by (simp add: falsy_iff)
  ultimately show "POST e w =
      (w\<lparr>activityLog := activityLog w @ [webhook_record p,
              \<lparr>type = ''error'', message = [Lit ''Webhook processing failed''],
              details = ErrorDetails err\<rparr>],
         calls := calls w @ [GetSpools, AssignSpoolToTray (id' S) (tray_entity_id p)]\<rparr>,
       Inr \<lparr>body = Failure ''Webhook processing failed'', http_status = 500\<rparr>)"
    using a assms by (simp add: handler_defs tray_change_def io_defs error_record_def json_status_def)
qed

text \<open>One delivery for each of the four steps.\<close>

theorem POST_exception_caught_witness:
  "POST parse_fails_env world0 =
     (world0\<lparr>activityLog := activityLog world0 @
         [\<lparr>type = ''error'', message = [Lit ''Webhook processing failed''],
              details = ErrorDetails ''Unexpected end of JSON input''\<rparr>]\<rparr>,
      Inr \<lparr>body = Failure ''Webhook processing failed'', http_status = 500\<rparr>) \<and>
   POST read_fails_env world0 =
     (world0\<lparr>activityLog := activityLog world0 @
         [webhook_record usage_payload,
              \<lparr>type = ''error'', message = [Lit ''Webhook processing failed''],
              details = ErrorDetails ''fetch failed''\<rparr>],
        calls := calls world0 @ [GetSpools]\<rparr>,
      Inr \<lparr>body = Failure ''Webhook processing failed'', http_status = 500\<rparr>) \<and>
   POST use_fails_env world0 =
     (world0\<lparr>activityLog := activityLog world0 @
         [webhook_record usage_payload,
              \<lparr>type = ''error'', message = [Lit ''Webhook processing failed''],
              details = ErrorDetails ''Spoolman API error: 500''\<rparr>],
        calls := calls world0 @ [GetSpools, UseWeight 1 50]\<rparr>,
      Inr \<lparr>body = Failure ''Webhook processing failed'', http_status = 500\<rparr>) \<and>
   POST assign_fails_env world0 =
     (world0\<lparr>activityLog := activityLog world0 @
         [webhook_record change_payload,
              \<lparr>type = ''error'', message = [Lit ''Webhook processing failed''],
              details = ErrorDetails ''Spoolman API error: 500''\<rparr>],
        calls := calls world0 @
          [GetSpools, AssignSpoolToTray 1 (Some ''sensor.x1c_ams_1_tray_2'')]\<rparr>,
      Inr \<lparr>body = Failure ''Webhook processing failed'', http_status = 500\<rparr>)"
proof (intro conjI)
  show "POST parse_fails_env world0 =
     (world0\<lparr>activityLog := activityLog world0 @
         [\<lparr>type = ''error'', message = [Lit ''Webhook processing failed''],
              details = ErrorDetails ''Unexpected end of JSON input''\<rparr>]\<rparr>,
      Inr \<lparr>body = Failure ''Webhook processing failed'', http_status = 500\<rparr>)"
    using POST_exception_caught [where e = parse_fails_env and w = world0
        and err = "''Unexpected end of JSON input''", THEN conjunct1]
    by (simp add: parse_fails_env_def usage_env_def error_record_def)
  show "POST read_fails_env world0 =
     (world0\<lparr>activityLog := activityLog world0 @
         [webhook_record usage_payload,
              \<lparr>type = ''error'', message = [Lit ''Webhook processing failed''],
              details = ErrorDetails ''fetch failed''\<rparr>],
        calls := calls world0 @ [GetSpools]\<rparr>,
      Inr \<lparr>body = Failure ''Webhook processing failed'', http_status = 500\<rparr>)"
    using POST_exception_caught [where e = read_fails_env and w = world0
        and err = "''fetch failed''" and p = usage_payload
        and client = "''http://spoolman:7912''", THEN conjunct2, THEN conjunct1]
    by (simp add: read_fails_env_def usage_env_def usage_payload_def error_record_def)
  show "POST use_fails_env world0 =
     (world0\<lparr>activityLog := activityLog world0 @
         [webhook_record usage_payload,
              \<lparr>type = ''error'', message = [Lit ''Webhook processing failed''],
              details = ErrorDetails ''Spoolman API error: 500''\<rparr>],
        calls := calls world0 @ [GetSpools, UseWeight 1 50]\<rparr>,
      Inr \<lparr>body = Failure ''Webhook processing failed'', http_status = 500\<rparr>)"
    using POST_exception_caught [where e = use_fails_env and w = world0
        and err = "''Spoolman API error: 500''" and p = usage_payload
        and client = "''http://spoolman:7912''" and uw = 50
        and tray = "''sensor.x1c_ams_1_tray_1''" and before = "[spool3]" and S = spool1
        and after = "[]", THEN conjunct2, THEN conjunct2, THEN conjunct1]
    by (simp add: use_fails_env_def usage_env_def usage_payload_def spool1_def spool3_def
        JSON_stringify_def quote_char_def error_record_def)
  show "POST assign_fails_env world0 =
     (world0\<lparr>activityLog := activityLog world0 @
         [webhook_record change_payload,
              \<lparr>type = ''error'', message = [Lit ''Webhook processing failed''],
              details = ErrorDetails ''Spoolman API error: 500''\<rparr>],
        calls := calls world0 @
          [GetSpools, AssignSpoolToTray 1 (Some ''sensor.x1c_ams_1_tray_2'')]\<rparr>,
      Inr \<lparr>body = Failure ''Webhook processing failed'', http_status = 500\<rparr>)"
    using POST_exception_caught [where e = assign_fails_env and w = world0
        and err = "''Spoolman API error: 500''" and p = change_payload
        and client = "''http://spoolman:7912''" and tag = "''ABC''"
        and before = "[spool3]" and S = spool1
        and after = "[]", THEN conjunct2, THEN conjunct2, THEN conjunct2]
    by (simp add: assign_fails_env_def change_env_def usage_env_def change_payload_def
        spool1_def spool3_def JSON_stringify_def quote_char_def error_record_def)
qed

end
